theory Spec2Isabelle
  imports Complex_Main
begin

section \<open>Numbers\<close>

text \<open>
  The sticker-peel engine computes with JavaScript numbers. They are modelled as
  \<^typ>\<open>real\<close>: rounding of IEEE doubles, NaN and the infinities are outside the
  model. Where the source would produce a non-finite number by dividing by zero, the
  model says so with \<open>None\<close>.

  The signed right shift \<^verbatim>\<open>v >> k\<close> first converts \<open>v\<close> to a 32-bit integer
  (truncation towards zero, then reduction modulo \<open>2^32\<close> into the signed range) and
  then shifts arithmetically, which is floor division by \<open>2^k\<close>.
\<close>

definition toInt32 :: "real \<Rightarrow> int" where
  "toInt32 v =
     (let n = (if v < 0 then - \<lfloor>- v\<rfloor> else \<lfloor>v\<rfloor>);
          m = n mod 2 ^ 32
      in if 2 ^ 31 \<le> m then m - 2 ^ 32 else m)"

definition shiftRight :: "real \<Rightarrow> nat \<Rightarrow> real" where
  "shiftRight v k = of_int (toInt32 v div 2 ^ k)"

section \<open>Types of the sticker animation\<close>

datatype Direction = Left | Right | Top | Bottom

datatype AnimationPhase = Idle | Peeling | Stuck | Paused

record Position =
  pos_x :: real
  pos_y :: real

record Size =
  width :: real
  height :: real

text \<open>Of a mouse event the engine reads only the page coordinates.\<close>

record MouseEvent =
  pageX :: real
  pageY :: real

text \<open>
  The interface \<^verbatim>\<open>PeelValues\<close>. Its fields \<^verbatim>\<open>bx, by, sx, ...\<close> carry the prefix
  \<open>pv_\<close> here (\<^verbatim>\<open>by\<close> is a keyword).
\<close>

record PeelValues =
  pv_bx :: real
  pv_by :: real
  pv_sx :: real
  pv_sy :: real
  pv_bs :: string
  pv_bmx :: real
  pv_bmy :: real
  pv_bsw :: real
  pv_bsh :: real
  pv_bsx :: real
  pv_bsy :: real
  pv_cw :: real
  pv_ch :: real
  pv_cx :: real
  pv_cy :: real
  pv_dw :: real
  pv_dh :: real
  pv_dx :: real
  pv_dy :: real

section \<open>Direction classifier and geometry calculator (sticker-animation-events)\<close>

definition getDirection :: "MouseEvent \<Rightarrow> Position \<Rightarrow> real \<Rightarrow> Direction" where
  "getDirection e pos sizeQ =
     (let fx = pos_x pos;
          fy = pos_y pos;
          tx = pageX e - fx;
          ty = pageY e - fy
      in if tx < sizeQ then Left
         else if tx > sizeQ * 3 then Right
         else if ty < sizeQ then Top
         else Bottom)"

text \<open>The threshold that \<^verbatim>\<open>handleMouseEnter\<close> passes to \<^verbatim>\<open>getDirection\<close>.\<close>

definition sizeQ_of :: "Size \<Rightarrow> real" where
  "sizeQ_of sz = min (width sz) (height sz) / 4"

definition calculatePeelValues ::
  "MouseEvent \<Rightarrow> Position \<Rightarrow> Size \<Rightarrow> Direction \<Rightarrow> PeelValues" where
  "calculatePeelValues event pos sz direction =
     (let fx = pos_x pos;
          fy = pos_y pos;
          tx = pageX event - fx;
          ty = pageY event - fy;
          a = width sz - tx;
          b = height sz - ty;
          c = shiftRight tx 1;
          d = shiftRight ty 1;
          e = shiftRight a 1;
          f = shiftRight b 1
      in case direction of
           Left \<Rightarrow>
             \<lparr> pv_bx = - width sz, pv_by = 0, pv_sx = - 1, pv_sy = 1, pv_bs = ''shadowL'',
               pv_bmx = - width sz + tx, pv_bmy = 0,
               pv_bsw = tx, pv_bsh = height sz, pv_bsx = a, pv_bsy = 0,
               pv_cw = width sz - c, pv_ch = height sz, pv_cx = c, pv_cy = 0,
               pv_dw = c, pv_dh = height sz, pv_dx = c - shiftRight c 1, pv_dy = 0 \<rparr>
         | Right \<Rightarrow>
             \<lparr> pv_bx = width sz, pv_by = 0, pv_sx = - 1, pv_sy = 1, pv_bs = ''shadowR'',
               pv_bmx = tx, pv_bmy = 0,
               pv_bsw = a, pv_bsh = height sz, pv_bsx = 0, pv_bsy = 0,
               pv_cw = width sz - e, pv_ch = height sz, pv_cx = 0, pv_cy = 0,
               pv_dw = e, pv_dh = height sz, pv_dx = width sz - a + shiftRight e 1, pv_dy = 0 \<rparr>
         | Top \<Rightarrow>
             \<lparr> pv_bx = 0, pv_by = - height sz, pv_sx = 1, pv_sy = - 1, pv_bs = ''shadowT'',
               pv_bmx = 0, pv_bmy = - height sz + ty,
               pv_bsw = width sz, pv_bsh = ty, pv_bsx = 0, pv_bsy = b,
               pv_cw = width sz, pv_ch = height sz - d, pv_cx = 0, pv_cy = d,
               pv_dw = width sz, pv_dh = d, pv_dx = 0, pv_dy = d - shiftRight d 1 \<rparr>
         | Bottom \<Rightarrow>
             \<lparr> pv_bx = 0, pv_by = height sz, pv_sx = 1, pv_sy = - 1, pv_bs = ''shadowB'',
               pv_bmx = 0, pv_bmy = ty,
               pv_bsw = width sz, pv_bsh = b, pv_bsx = 0, pv_bsy = 0,
               pv_cw = width sz, pv_ch = height sz - f, pv_cx = 0, pv_cy = 0,
               pv_dw = width sz, pv_dh = f, pv_dx = 0, pv_dy = height sz - b + shiftRight f 1 \<rparr>)"

section \<open>Auto animation (sticker-animation-auto)\<close>

text \<open>
  \<^verbatim>\<open>cubicBezier\<close>: the loop \<^verbatim>\<open>for (i = 0; i < 4; i++)\<close> is the recursion
  \<open>newtonRaphson\<close> on the number of iterations left. A zero slope makes the source
  divide by zero, after which every value is NaN or infinite: \<open>None\<close>.
\<close>

fun newtonRaphson :: "real \<Rightarrow> real \<Rightarrow> real \<Rightarrow> real \<Rightarrow> nat \<Rightarrow> real \<Rightarrow> real option" where
  "newtonRaphson ax bx cx t 0 x = Some x"
| "newtonRaphson ax bx cx t (Suc n) x =
     (let currentX = ((ax * x + bx) * x + cx) * x;
          currentSlope = (3 * ax * x + 2 * bx) * x + cx
      in if \<bar>currentX - t\<bar> < 0.001 then Some x
         else if currentSlope = 0 then None
         else newtonRaphson ax bx cx t n (x - (currentX - t) / currentSlope))"

definition cubicBezier :: "real \<Rightarrow> real \<Rightarrow> real \<Rightarrow> real \<Rightarrow> real \<Rightarrow> real option" where
  "cubicBezier x1 y1 x2 y2 t =
     (let cx = 3 * x1;
          bx = 3 * (x2 - x1) - cx;
          ax = 1 - cx - bx;
          cy = 3 * y1;
          by' = 3 * (y2 - y1) - cy;
          ay = 1 - cy - by'
      in case newtonRaphson ax bx cx t 4 t of
           None \<Rightarrow> None
         | Some x \<Rightarrow> Some (((ay * x + by') * x + cy) * x))"

text \<open>
  The first lines of \<^verbatim>\<open>animate\<close>: \<^verbatim>\<open>Math.min(elapsed / config.duration, 1)\<close>. With a
  zero duration the quotient is \<open>+Infinity\<close> for a positive elapsed time (the minimum is
  then 1) and NaN or \<open>-Infinity\<close> otherwise.
\<close>

definition progressAt :: "real \<Rightarrow> real \<Rightarrow> real option" where
  "progressAt duration elapsed =
     (if duration = 0 then (if 0 < elapsed then Some 1 else None)
      else Some (min (elapsed / duration) 1))"

definition easedProgressAt :: "real \<Rightarrow> real \<Rightarrow> real option" where
  "easedProgressAt duration elapsed =
     (case progressAt duration elapsed of
        None \<Rightarrow> None
      | Some progress \<Rightarrow> cubicBezier 0.23 1 0.32 1 progress)"

text \<open>
  For the control points of \<^verbatim>\<open>animate\<close>, \<^verbatim>\<open>cubicBezier(0.23, 1, 0.32, 1, t)\<close>, the
  coefficients are \<open>ax = 0.73\<close>, \<open>bx = -0.42\<close>, \<open>cx = 0.69\<close> and \<open>ay = 1\<close>, \<open>by = -3\<close>,
  \<open>cy = 3\<close>. These are the three polynomials that the function then evaluates:
  \<^verbatim>\<open>currentX\<close>, \<^verbatim>\<open>currentSlope\<close> and the returned value.
\<close>

definition easeX :: "real \<Rightarrow> real" where
  "easeX x = ((73 / 100 * x - 21 / 50) * x + 69 / 100) * x"

definition easeSlope :: "real \<Rightarrow> real" where
  "easeSlope x = (219 / 100 * x - 21 / 25) * x + 69 / 100"

definition easeY :: "real \<Rightarrow> real" where
  "easeY x = ((x - 3) * x + 3) * x"

text \<open>\<^verbatim>\<open>calculateAutoAnimationValues\<close>; \<^verbatim>\<open>v || 1\<close> is 1 when \<open>v\<close> is zero.\<close>

definition shadowProgressOf :: "real \<Rightarrow> real" where
  "shadowProgressOf progress = min (progress * 1.5) 1"

definition orOne :: "real \<Rightarrow> real" where
  "orOne v = (if v = 0 then 1 else v)"

definition calculateAutoAnimationValues ::
  "real \<Rightarrow> Direction \<Rightarrow> real \<Rightarrow> real \<Rightarrow> PeelValues" where
  "calculateAutoAnimationValues sz direction progress shadowIntensity =
     (let revealProgress = progress;
          shadowProgress = shadowProgressOf progress
      in case direction of
           Left \<Rightarrow>
             (let revealedWidth = sz * revealProgress;
                  shadowWidth = max 0 (revealedWidth - 20) * shadowProgress
              in \<lparr> pv_bx = 0, pv_by = 0, pv_sx = - 1, pv_sy = 1, pv_bs = ''shadowL'',
                   pv_bmx = revealedWidth, pv_bmy = 0,
                   pv_bsw = shadowWidth, pv_bsh = sz, pv_bsx = sz - shadowWidth, pv_bsy = 0,
                   pv_cw = orOne revealedWidth, pv_ch = sz, pv_cx = 0, pv_cy = 0,
                   pv_dw = min (revealedWidth * 0.3) (sz * 0.2), pv_dh = sz,
                   pv_dx = (if revealedWidth > 10 then revealedWidth - 10 else - 10000),
                   pv_dy = 0 \<rparr>)
         | Right \<Rightarrow>
             (let revealedWidth = sz * revealProgress;
                  shadowWidth = max 0 (revealedWidth - 20) * shadowProgress
              in \<lparr> pv_bx = 0, pv_by = 0, pv_sx = - 1, pv_sy = 1, pv_bs = ''shadowR'',
                   pv_bmx = - revealedWidth, pv_bmy = 0,
                   pv_bsw = shadowWidth, pv_bsh = sz, pv_bsx = 0, pv_bsy = 0,
                   pv_cw = orOne revealedWidth, pv_ch = sz, pv_cx = sz - revealedWidth, pv_cy = 0,
                   pv_dw = min (revealedWidth * 0.3) (sz * 0.2), pv_dh = sz,
                   pv_dx = (if revealedWidth > 10 then sz - revealedWidth + 10 else - 10000),
                   pv_dy = 0 \<rparr>)
         | Top \<Rightarrow>
             (let revealedHeight = sz * revealProgress;
                  shadowHeight = max 0 (revealedHeight - 20) * shadowProgress
              in \<lparr> pv_bx = 0, pv_by = - sz + revealedHeight, pv_sx = 1, pv_sy = - 1,
                   pv_bs = ''shadowT'',
                   pv_bmx = 0, pv_bmy = - sz + revealedHeight,
                   pv_bsw = sz, pv_bsh = shadowHeight, pv_bsx = 0, pv_bsy = sz - shadowHeight,
                   pv_cw = sz, pv_ch = sz, pv_cx = 0, pv_cy = 0,
                   pv_dw = sz, pv_dh = min (revealedHeight * 0.3) (sz * 0.2),
                   pv_dx = 0, pv_dy = revealedHeight - 10 \<rparr>)
         | Bottom \<Rightarrow>
             (let revealedHeight = sz * revealProgress;
                  shadowHeight = max 0 (revealedHeight - 20) * shadowProgress
              in \<lparr> pv_bx = 0, pv_by = sz - revealedHeight, pv_sx = 1, pv_sy = - 1,
                   pv_bs = ''shadowB'',
                   pv_bmx = 0, pv_bmy = sz - revealedHeight,
                   pv_bsw = sz, pv_bsh = shadowHeight, pv_bsx = 0, pv_bsy = 0,
                   pv_cw = sz, pv_ch = sz, pv_cx = 0, pv_cy = 0,
                   pv_dw = sz, pv_dh = min (revealedHeight * 0.3) (sz * 0.2),
                   pv_dx = 0, pv_dy = sz - revealedHeight + 10 \<rparr>))"

section \<open>A model of the document\<close>

text \<open>
  Nodes are numbers; a document is the child lists, the parent pointers, the inline
  styles, the class names and the \<^verbatim>\<open>id\<close> attributes of its nodes, with a counter for the
  next node to create. An inline property that is absent reads as the empty string, and
  assigning the empty string removes it. A deep clone is one new node standing for the
  whole copied subtree. Style values keep their structure instead of being printed:
  \<open>Px v\<close> is \<^verbatim>\<open>${v}px\<close>, \<open>Translate a b\<close> is \<^verbatim>\<open>translate(${a}px, ${b}px)\<close>,
  \<open>ScaleXY a b\<close> is \<^verbatim>\<open>scaleX(${a}) scaleY(${b})\<close>, \<open>TransitionAllZero\<close> is
  \<^verbatim>\<open>all 0s\<close>, \<open>TransitionMs p d e\<close> is \<^verbatim>\<open>${p} ${d}ms ${e}\<close> and \<open>NumberText v\<close> is
  \<^verbatim>\<open>v.toString()\<close>.
\<close>

type_synonym node = nat

text \<open>
  An operation that can throw returns \<open>Inl\<close> of the error, paired with the state that the
  throw leaves behind where the operation works on a state.
\<close>

datatype js_error = Error string | TypeError | NotFoundError

datatype css_value =
    Px real
  | Translate real real
  | ScaleXY real real
  | TransitionAllZero
  | TransitionMs string real string
  | NumberText real
  | Plain string

record DOM =
  children :: "node \<Rightarrow> node list"
  parentNode :: "node \<Rightarrow> node option"
  style :: "node \<Rightarrow> string \<Rightarrow> css_value option"
  className :: "node \<Rightarrow> string"
  idAttr :: "node \<Rightarrow> string"
  nextNode :: node

definition documentHead :: node where
  "documentHead = 0"

definition createElement :: "DOM \<Rightarrow> node \<times> DOM" where
  "createElement d =
     (let n = nextNode d
      in (n, d\<lparr> children := (children d)(n := []),
                parentNode := (parentNode d)(n := None),
                style := (style d)(n := Map.empty),
                className := (className d)(n := []),
                idAttr := (idAttr d)(n := []),
                nextNode := Suc n \<rparr>))"

text \<open>\<^verbatim>\<open>node.remove()\<close>, also the first step of every insertion of an attached node.\<close>

definition removeNode :: "DOM \<Rightarrow> node \<Rightarrow> DOM" where
  "removeNode d n =
     (case parentNode d n of
        None \<Rightarrow> d
      | Some p \<Rightarrow> d\<lparr> children := (children d)(p := remove1 n (children d p)),
                      parentNode := (parentNode d)(n := None) \<rparr>)"

definition placeBefore :: "node \<Rightarrow> node \<Rightarrow> node list \<Rightarrow> node list" where
  "placeBefore ref new xs = takeWhile (\<lambda>c. c \<noteq> ref) xs @ new # dropWhile (\<lambda>c. c \<noteq> ref) xs"

text \<open>
  \<^verbatim>\<open>parent.insertBefore(new, ref)\<close> throws NotFoundError unless \<open>ref\<close> is a child of
  \<open>parent\<close>; inserting a node before itself changes nothing. (The hierarchy check, that
  \<open>new\<close> is no ancestor of \<open>parent\<close>, is not modelled.)
\<close>

definition insertBefore ::
  "DOM \<Rightarrow> node \<Rightarrow> node \<Rightarrow> node \<Rightarrow> (js_error \<times> DOM) + DOM" where
  "insertBefore d p new ref =
     (if parentNode d ref \<noteq> Some p then Inl (NotFoundError, d)
      else if new = ref then Inr d
      else let d' = removeNode d new
           in Inr (d'\<lparr> children := (children d')(p := placeBefore ref new (children d' p)),
                       parentNode := (parentNode d')(new := Some p) \<rparr>))"

definition appendChild :: "DOM \<Rightarrow> node \<Rightarrow> node \<Rightarrow> DOM" where
  "appendChild d p new =
     (let d' = removeNode d new
      in d'\<lparr> children := (children d')(p := children d' p @ [new]),
               parentNode := (parentNode d')(new := Some p) \<rparr>)"

definition removeChild :: "DOM \<Rightarrow> node \<Rightarrow> node \<Rightarrow> (js_error \<times> DOM) + DOM" where
  "removeChild d p c =
     (if parentNode d c \<noteq> Some p then Inl (NotFoundError, d) else Inr (removeNode d c))"

definition cloneNode :: "DOM \<Rightarrow> node \<Rightarrow> node \<times> DOM" where
  "cloneNode d n =
     (let (c, d') = createElement d
      in (c, d'\<lparr> style := (style d')(c := style d n),
                  className := (className d')(c := className d n),
                  idAttr := (idAttr d')(c := idAttr d n) \<rparr>))"

definition setStyle :: "DOM \<Rightarrow> node \<Rightarrow> string \<Rightarrow> css_value \<Rightarrow> DOM" where
  "setStyle d n prop v = d\<lparr> style := (style d)(n := (style d n)(prop \<mapsto> v)) \<rparr>"

definition clearStyle :: "DOM \<Rightarrow> node \<Rightarrow> string \<Rightarrow> DOM" where
  "clearStyle d n prop = d\<lparr> style := (style d)(n := (style d n)(prop := None)) \<rparr>"

text \<open>Assigning \<^verbatim>\<open>style.cssText\<close> replaces the whole inline style; a later declaration wins.\<close>

definition setCssText :: "DOM \<Rightarrow> node \<Rightarrow> (string \<times> css_value) list \<Rightarrow> DOM" where
  "setCssText d n decls = d\<lparr> style := (style d)(n := map_of (rev decls)) \<rparr>"

definition setClassName :: "DOM \<Rightarrow> node \<Rightarrow> string \<Rightarrow> DOM" where
  "setClassName d n c = d\<lparr> className := (className d)(n := c) \<rparr>"

text \<open>
  \<^verbatim>\<open>document.getElementById\<close> is only ever asked for the injected style sheet, which lives
  in \<^verbatim>\<open>document.head\<close>: the search goes through the children of the head.
\<close>

definition getElementById :: "DOM \<Rightarrow> string \<Rightarrow> node option" where
  "getElementById d i = find (\<lambda>n. idAttr d n = i) (children d documentHead)"

section \<open>The layered structure (sticker-animation-dom)\<close>

text \<open>The field \<^verbatim>\<open>back\<close> is \<open>backLayer\<close> here (\<^verbatim>\<open>back\<close> is a keyword).\<close>

record DOMStructure =
  container :: node
  mask :: node
  move :: node
  front :: node
  backLayer :: node
  backImg :: node
  backShadow :: node
  depth :: node

definition layerCss :: "real \<Rightarrow> real \<Rightarrow> (string \<times> css_value) list" where
  "layerCss w h =
     [(''position'', Plain ''relative''), (''width'', Px w), (''height'', Px h),
      (''overflow'', Plain ''hidden''), (''transition'', TransitionAllZero)]"

definition contentCss :: "(string \<times> css_value) list" where
  "contentCss =
     [(''width'', Plain ''100%''), (''height'', Plain ''100%''), (''object-fit'', Plain ''cover'')]"

definition createStickerDOM :: "DOM \<Rightarrow> node \<Rightarrow> real \<Rightarrow> real \<Rightarrow> DOMStructure \<times> DOM" where
  "createStickerDOM d0 originalElement w h =
     (let (container, d) = createElement d0;
          d = setCssText d container
                [(''position'', Plain ''relative''), (''width'', Px w), (''height'', Px h),
                 (''overflow'', Plain ''hidden''), (''display'', Plain ''inline-block'')];
          d = setClassName d container ''sticker-container'';
          (mask, d) = createElement d;
          d = setCssText d mask (layerCss w h);
          d = setClassName d mask ''sticker-mask'';
          (move, d) = createElement d;
          d = setCssText d move (layerCss w h);
          d = setClassName d move ''sticker-move'';
          (front, d) = createElement d;
          d = setCssText d front
                [(''position'', Plain ''relative''), (''width'', Px w), (''height'', Px h),
                 (''z-index'', Plain ''1'')];
          d = setClassName d front ''sticker-front sticker-img'';
          (frontContent, d) = cloneNode d originalElement;
          d = setCssText d frontContent contentCss;
          d = appendChild d front frontContent;
          (back, d) = createElement d;
          d = setCssText d back
                [(''position'', Plain ''absolute''), (''width'', Px w), (''height'', Px h),
                 (''left'', Plain ''0''), (''top'', Plain ''0''), (''z-index'', Plain ''3''),
                 (''background-color'', Plain ''#ffffff''), (''transform'', Translate w 0),
                 (''overflow'', Plain ''hidden''), (''transition'', TransitionAllZero)];
          d = setClassName d back ''sticker-back'';
          (backImg, d) = createElement d;
          d = setCssText d backImg
                [(''position'', Plain ''relative''), (''width'', Px w), (''height'', Px h),
                 (''opacity'', Plain ''0.4'')];
          d = setClassName d backImg ''sticker-back-img sticker-img'';
          (backContent, d) = cloneNode d originalElement;
          d = setCssText d backContent contentCss;
          d = appendChild d backImg backContent;
          (backShadow, d) = createElement d;
          d = setCssText d backShadow
                [(''position'', Plain ''absolute''), (''width'', Px w), (''height'', Px h),
                 (''left'', Plain ''0''), (''top'', Plain ''0''), (''z-index'', Plain ''4''),
                 (''transition'', TransitionAllZero)];
          d = setClassName d backShadow ''sticker-shadow'';
          (depth, d) = createElement d;
          d = setCssText d depth
                [(''position'', Plain ''absolute''), (''width'', Px w), (''height'', Px h),
                 (''left'', Plain ''0''), (''top'', Plain ''0''), (''z-index'', Plain ''1''),
                 (''transform'', Translate (- 10000) (- 10000)),
                 (''transition'', TransitionAllZero)];
          d = setClassName d depth ''sticker-shadow sticker-depth'';
          d = appendChild d back backImg;
          d = appendChild d back backShadow;
          d = appendChild d move front;
          d = appendChild d move depth;
          d = appendChild d move back;
          d = appendChild d mask move;
          d = appendChild d container mask
      in (\<lparr> container = container, mask = mask, move = move, front = front, backLayer = back,
             backImg = backImg, backShadow = backShadow, depth = depth \<rparr>, d))"

text \<open>
  \<^verbatim>\<open>getElementSize\<close> reads the bounding rectangle and the computed style of the element;
  both come from the layout engine and are an input here.
\<close>

record ElementBox =
  rectWidth :: real
  rectHeight :: real
  paddingLeft :: real
  paddingRight :: real
  paddingTop :: real
  paddingBottom :: real
  borderLeftWidth :: real
  borderRightWidth :: real
  borderTopWidth :: real
  borderBottomWidth :: real

definition getElementSize :: "ElementBox \<Rightarrow> Size" where
  "getElementSize box =
     \<lparr> width = rectWidth box - paddingLeft box - paddingRight box
                 - borderLeftWidth box - borderRightWidth box,
       height = rectHeight box - paddingTop box - paddingBottom box
                 - borderTopWidth box - borderBottomWidth box \<rparr>"

text \<open>
  The loop of \<^verbatim>\<open>insertStickerDOM\<close> removes the children of the wrapper that come before
  the original element.
\<close>

function clearWrapper :: "DOM \<Rightarrow> node \<Rightarrow> node \<Rightarrow> (js_error \<times> DOM) + DOM" where
  "clearWrapper d wrapper originalElement =
     (case children d wrapper of
        [] \<Rightarrow> Inr d
      | firstChild # rest \<Rightarrow>
          if firstChild \<noteq> originalElement
          then (case removeChild d wrapper firstChild of
                  Inl err \<Rightarrow> Inl err
                | Inr d' \<Rightarrow> clearWrapper d' wrapper originalElement)
          else Inr d)"
  by pat_completeness auto
termination
proof (relation "measure (\<lambda>(d, wrapper, originalElement). length (children d wrapper))")
  show "wf (measure (\<lambda>(d, wrapper, originalElement). length (children d wrapper)))"
    by simp
next
  fix d :: DOM and wrapper originalElement firstChild :: node and rest d'
  assume cs: "children d wrapper = firstChild # rest"
    and rm: "removeChild d wrapper firstChild = Inr d'"
  from rm have par: "parentNode d firstChild = Some wrapper"
    and d': "d' = removeNode d firstChild"
    by (auto simp: removeChild_def split: if_splits)
  have "children d' wrapper = rest"
    using cs par by (simp add: d' removeNode_def)
  then show "((d', wrapper, originalElement), (d, wrapper, originalElement))
               \<in> measure (\<lambda>(d, wrapper, originalElement). length (children d wrapper))"
    using cs by simp
qed

definition insertStickerDOM ::
  "DOM \<Rightarrow> node \<Rightarrow> DOMStructure \<Rightarrow> node \<Rightarrow> (js_error \<times> DOM) + DOM" where
  "insertStickerDOM d0 wrapper structure originalElement =
     (let d = setStyle d0 originalElement ''display'' (Plain ''none'')
      in case clearWrapper d wrapper originalElement of
           Inl err \<Rightarrow> Inl err
         | Inr d \<Rightarrow> insertBefore d wrapper (container structure) originalElement)"

section \<open>Styles (sticker-animation-styles, applyPeelStyles)\<close>

definition STYLE_ID :: string where
  "STYLE_ID = ''sticker-animation-styles''"

text \<open>
  What \<^verbatim>\<open>injectGlobalStyles\<close> returns: the function that does nothing, when the style sheet
  was already there, or the one that removes the style sheet. The other cleanup functions
  that \<^verbatim>\<open>useStickerAnimation\<close> collects are the further constructors. (The text of the style
  sheet is not modelled.)
\<close>

datatype cleanup = CleanupNothing | CleanupStyles | CleanupEvents | CleanupObserver

definition injectGlobalStyles :: "DOM \<Rightarrow> cleanup \<times> DOM" where
  "injectGlobalStyles d =
     (if getElementById d STYLE_ID \<noteq> None then (CleanupNothing, d)
      else let (styleElement, d) = createElement d;
               d = d\<lparr> idAttr := (idAttr d)(styleElement := STYLE_ID) \<rparr>;
               d = appendChild d documentHead styleElement
           in (CleanupStyles, d))"

definition removeGlobalStyles :: "DOM \<Rightarrow> DOM" where
  "removeGlobalStyles d =
     (case getElementById d STYLE_ID of
        None \<Rightarrow> d
      | Some s \<Rightarrow> removeNode d s)"

definition updateCSSVariables :: "DOM \<Rightarrow> node \<Rightarrow> (string \<times> css_value) list \<Rightarrow> DOM" where
  "updateCSSVariables d element variables =
     fold (\<lambda>(key, v) d. setStyle d element (''--sticker-'' @ key) v) variables d"

definition applyPeelStyles :: "DOM \<Rightarrow> DOMStructure \<Rightarrow> PeelValues \<Rightarrow> css_value \<Rightarrow> DOM" where
  "applyPeelStyles d0 s values transition =
     (let d = setStyle d0 (mask s) ''transition'' transition;
          d = setStyle d (mask s) ''width'' (Px (pv_cw values));
          d = setStyle d (mask s) ''height'' (Px (pv_ch values));
          d = setStyle d (mask s) ''transform'' (Translate (pv_cx values) (pv_cy values));
          d = setStyle d (move s) ''transition'' transition;
          d = setStyle d (move s) ''transform'' (Translate (- pv_cx values) (- pv_cy values));
          d = setStyle d (backLayer s) ''transition'' transition;
          d = setStyle d (backLayer s) ''transform'' (Translate (pv_bmx values) (pv_bmy values));
          d = setStyle d (backImg s) ''transform'' (ScaleXY (pv_sx values) (pv_sy values));
          d = setStyle d (backShadow s) ''width'' (Px (pv_bsw values));
          d = setStyle d (backShadow s) ''height'' (Px (pv_bsh values));
          d = setStyle d (backShadow s) ''transform'' (Translate (pv_bsx values) (pv_bsy values));
          d = setStyle d (depth s) ''width'' (Px (pv_dw values));
          d = setStyle d (depth s) ''height'' (Px (pv_dh values));
          d = setStyle d (depth s) ''transform'' (Translate (pv_dx values) (pv_dy values))
      in d)"

section \<open>The hook \<^verbatim>\<open>useStickerAnimation\<close> (sticker-animation)\<close>

record ObserverInit =
  threshold :: "real option"
  rootMargin :: "string option"

text \<open>
  \<^verbatim>\<open>StickerAnimationConfig\<close>: every option may be absent. (A key that is present with the
  value \<^verbatim>\<open>undefined\<close> is not modelled.)
\<close>

record StickerAnimationConfig =
  cfg_duration :: "real option"
  cfg_easing :: "string option"
  cfg_direction :: "Direction option"
  cfg_delay :: "real option"
  cfg_shadowIntensity :: "real option"
  cfg_perspective :: "real option"
  cfg_observerOptions :: "ObserverInit option"

text \<open>\<^verbatim>\<open>Required<StickerAnimationConfig>\<close>.\<close>

record RequiredConfig =
  duration :: real
  easing :: string
  direction :: Direction
  delay :: real
  shadowIntensity :: real
  perspective :: real
  observerOptions :: ObserverInit

record Transform3D =
  translateX :: real
  translateY :: real
  rotateY :: real
  scaleX :: real
  scaleY :: real
  clipPath :: string

text \<open>\<open>progress\<close> is \<open>None\<close> when the source's division by a zero extent makes it non-finite.\<close>

record AnimationState =
  phase :: AnimationPhase
  progress :: "real option"
  state_direction :: Direction
  startTime :: real
  currentTransform :: Transform3D

definition DEFAULT_CONFIG :: RequiredConfig where
  "DEFAULT_CONFIG =
     \<lparr> duration = 800,
       easing = ''cubic-bezier(0.23, 1, 0.32, 1)'',
       direction = Left,
       delay = 0,
       shadowIntensity = 0.7,
       perspective = 800,
       observerOptions =
         \<lparr> threshold = Some 0.2, rootMargin = Some ''0px 0px -100px 0px'' \<rparr> \<rparr>"

definition orElse :: "'a option \<Rightarrow> 'a \<Rightarrow> 'a" where
  "orElse v dflt = (case v of None \<Rightarrow> dflt | Some x \<Rightarrow> x)"

definition orElseOpt :: "'a option \<Rightarrow> 'a option \<Rightarrow> 'a option" where
  "orElseOpt v dflt = (case v of None \<Rightarrow> dflt | Some x \<Rightarrow> Some x)"

text \<open>The two object spreads that build \<^verbatim>\<open>finalConfig\<close>.\<close>

definition mergeConfig :: "StickerAnimationConfig option \<Rightarrow> RequiredConfig" where
  "mergeConfig config =
     (case config of
        None \<Rightarrow> DEFAULT_CONFIG
      | Some c \<Rightarrow>
          \<lparr> duration = orElse (cfg_duration c) (duration DEFAULT_CONFIG),
            easing = orElse (cfg_easing c) (easing DEFAULT_CONFIG),
            direction = orElse (cfg_direction c) (direction DEFAULT_CONFIG),
            delay = orElse (cfg_delay c) (delay DEFAULT_CONFIG),
            shadowIntensity = orElse (cfg_shadowIntensity c) (shadowIntensity DEFAULT_CONFIG),
            perspective = orElse (cfg_perspective c) (perspective DEFAULT_CONFIG),
            observerOptions =
              (case cfg_observerOptions c of
                 None \<Rightarrow> observerOptions DEFAULT_CONFIG
               | Some opts \<Rightarrow>
                   \<lparr> threshold =
                       orElseOpt (threshold opts) (threshold (observerOptions DEFAULT_CONFIG)),
                     rootMargin =
                       orElseOpt (rootMargin opts) (rootMargin (observerOptions DEFAULT_CONFIG)) \<rparr>)
          \<rparr>)"

text \<open>The two range checks on \<^verbatim>\<open>finalConfig\<close>, with the warnings they print.\<close>

definition validateConfig :: "RequiredConfig \<Rightarrow> RequiredConfig \<times> string list" where
  "validateConfig c0 =
     (let (c, warnings) =
            (if duration c0 \<le> 0
             then (c0\<lparr> duration := duration DEFAULT_CONFIG \<rparr>,
                   [''useStickerAnimation: duration must be positive, using default''])
             else (c0, []))
      in if shadowIntensity c < 0 \<or> shadowIntensity c > 1
         then (c\<lparr> shadowIntensity := shadowIntensity DEFAULT_CONFIG \<rparr>,
               warnings @
               [''useStickerAnimation: shadowIntensity must be between 0 and 1, using default''])
         else (c, warnings))"

definition initialTransform :: Transform3D where
  "initialTransform =
     \<lparr> translateX = 0, translateY = 0, rotateY = 0, scaleX = 1, scaleY = 1,
       clipPath = ''polygon(0 0, 100% 0, 100% 100%, 0 100%)'' \<rparr>"

text \<open>The callbacks that \<^verbatim>\<open>setTimeout\<close> holds, and the state of the intersection observer.\<close>

datatype timer_task = DropShadowTask | ShowElementTask

record ObserverState =
  observed :: "node list"
  hasTriggered :: bool

text \<open>
  The variables that the closures of one call of \<^verbatim>\<open>useStickerAnimation\<close> share, with the
  document, the registered listeners, the pending timers and the printed warnings.
  \<open>documentMouseUp\<close> holds the event that each pending \<^verbatim>\<open>mouseup\<close> listener on the
  document has captured.
\<close>

record Instance =
  dom :: DOM
  finalConfig :: RequiredConfig
  animationState :: AnimationState
  cleanupFunctions :: "cleanup list"
  wrapperElement :: node
  targetElement :: node
  elementSize :: Size
  stickerDOM :: DOMStructure
  currentDirection :: Direction
  savePos :: "PeelValues option"
  elementPos :: "Position option"
  listeners :: "(node \<times> string) list"
  documentMouseUp :: "MouseEvent list"
  timers :: "(real \<times> timer_task) list"
  warnings :: "string list"
  observer :: "ObserverState option"

text \<open>The first argument as JavaScript may pass it.\<close>

datatype js_value = JsNull | JsUndefined | JsOther | HTMLElement node

definition containerEvents :: "string list" where
  "containerEvents =
     [''mouseenter'', ''mouseleave'', ''mousemove'', ''touchstart'', ''touchend'', ''touchmove'']"

definition setupEventHandlers :: "DOMStructure \<Rightarrow> (node \<times> string) list \<Rightarrow> (node \<times> string) list" where
  "setupEventHandlers structure ls = ls @ map (\<lambda>ev. (container structure, ev)) containerEvents"

definition cleanupEvents :: "DOMStructure \<Rightarrow> (node \<times> string) list \<Rightarrow> (node \<times> string) list" where
  "cleanupEvents structure ls = fold (\<lambda>ev. remove1 (container structure, ev)) containerEvents ls"

text \<open>
  The body of \<^verbatim>\<open>useStickerAnimation\<close> up to its \<^verbatim>\<open>return\<close>. \<open>hasIntersectionObserver\<close> is
  \<^verbatim>\<open>'IntersectionObserver' in window\<close> and \<open>box\<close> is the layout of the target.
\<close>

definition useStickerAnimation ::
  "bool \<Rightarrow> ElementBox \<Rightarrow> DOM \<Rightarrow> js_value \<Rightarrow> StickerAnimationConfig option
     \<Rightarrow> (js_error \<times> DOM) + Instance" where
  "useStickerAnimation hasIntersectionObserver box d0 targetValue config =
     (let merged = mergeConfig config
      in case targetValue of
           HTMLElement target \<Rightarrow>
             (let (cfg, warned) = validateConfig merged;
                  state = \<lparr> phase = Idle, progress = Some 0, state_direction = direction cfg,
                            startTime = 0, currentTransform = initialTransform \<rparr>;
                  (cleanupStyles, d) = injectGlobalStyles d0;
                  cleanups = [cleanupStyles];
                  (wrapper, d) = createElement d;
                  d = setStyle d wrapper ''position'' (Plain ''relative'');
                  d = setStyle d wrapper ''display'' (Plain ''inline-block'')
              in case (case parentNode d target of
                         None \<Rightarrow> Inr d
                       | Some p \<Rightarrow> insertBefore d p wrapper target) of
                   Inl err \<Rightarrow> Inl err
                 | Inr d \<Rightarrow>
                     (let d = appendChild d wrapper target;
                          sz = getElementSize box;
                          (structure, d) = createStickerDOM d target (width sz) (height sz)
                      in case insertStickerDOM d wrapper structure target of
                           Inl err \<Rightarrow> Inl err
                         | Inr d \<Rightarrow>
                             (let ls = setupEventHandlers structure [];
                                  cleanups = cleanups @ [CleanupEvents];
                                  (obs, d, cleanups) =
                                    (if hasIntersectionObserver
                                     then (Some \<lparr> observed = [container structure],
                                                   hasTriggered = False \<rparr>,
                                           setStyle
                                             (setStyle d (container structure) ''opacity''
                                                (Plain ''0''))
                                             (container structure) ''transition''
                                             (TransitionMs ''opacity'' (duration cfg) (easing cfg)),
                                           cleanups @ [CleanupObserver])
                                     else (None, d, cleanups));
                                  cleanups = cleanups @ [CleanupNothing]
                              in Inr \<lparr> dom = d, finalConfig = cfg, animationState = state,
                                       cleanupFunctions = cleanups, wrapperElement = wrapper,
                                       targetElement = target, elementSize = sz,
                                       stickerDOM = structure,
                                       currentDirection = direction cfg,
                                       savePos = None, elementPos = None,
                                       listeners = ls, documentMouseUp = [], timers = [],
                                       warnings = warned, observer = obs \<rparr>)))
         | _ \<Rightarrow>
             Inl (Error ''useStickerAnimation: targetElement must be a valid HTMLElement'', d0))"

section \<open>Event handlers\<close>

text \<open>
  What a handler reads from the browser when it runs: the bounding rectangle of the
  container, the scroll offsets of the window and the clock.
\<close>

record ViewEnv =
  rectLeft :: real
  rectTop :: real
  pageXOffset :: real
  pageYOffset :: real
  now :: real

definition dropShadow :: css_value where
  "dropShadow = Plain ''drop-shadow(0 2px 4px rgba(0, 0, 0, 0.2))''"

definition handleMouseEnter :: "ViewEnv \<Rightarrow> Instance \<Rightarrow> MouseEvent \<Rightarrow> Instance" where
  "handleMouseEnter env inst e =
     (let s = stickerDOM inst;
          pos = \<lparr> pos_x = rectLeft env + pageXOffset env, pos_y = rectTop env + pageYOffset env \<rparr>;
          sizeQ = sizeQ_of (elementSize inst);
          dir = getDirection e pos sizeQ;
          sp = calculatePeelValues e pos (elementSize inst) dir;
          shadowClass = ''sticker-shadow '' @ pv_bs sp;
          d = setClassName (dom inst) (backShadow s) shadowClass;
          d = setClassName d (depth s) shadowClass;
          d = updateCSSVariables d (container s)
                [(''shadow-intensity'', NumberText (shadowIntensity (finalConfig inst))),
                 (''perspective'', NumberText (perspective (finalConfig inst))),
                 (''duration'', NumberText (duration (finalConfig inst)))];
          d = applyPeelStyles d s sp TransitionAllZero
      in inst\<lparr> dom := d,
                elementPos := Some pos,
                currentDirection := dir,
                savePos := Some sp,
                animationState := (animationState inst)
                  \<lparr> phase := Peeling, state_direction := dir, startTime := now env \<rparr> \<rparr>)"

text \<open>
  \<^verbatim>\<open>handleMouseLeave\<close>. The non-null assertion \<^verbatim>\<open>elementPos!\<close> is a TypeError, thrown
  before anything is written, when \<open>elementPos\<close> is null.
\<close>

definition handleMouseLeave :: "Instance \<Rightarrow> MouseEvent \<Rightarrow> (js_error \<times> Instance) + Instance" where
  "handleMouseLeave inst e =
     (case savePos inst of
        None \<Rightarrow> Inr inst
      | Some _ \<Rightarrow>
          (case elementPos inst of
             None \<Rightarrow> Inl (TypeError, inst)
           | Some pos \<Rightarrow>
               (let cfg = finalConfig inst;
                    sz = elementSize inst;
                    dir = currentDirection inst;
                    transition = TransitionMs ''all'' (duration cfg) (easing cfg);
                    resetValues = calculatePeelValues e pos sz dir;
                    d = applyPeelStyles (dom inst) (stickerDOM inst)
                          (resetValues
                             \<lparr> pv_bmx := (if dir = Left then - width sz
                                          else if dir = Right then width sz else 0),
                               pv_bmy := (if dir = Top then - height sz
                                          else if dir = Bottom then height sz else 0),
                               pv_cw := width sz,
                               pv_ch := height sz,
                               pv_cx := 0,
                               pv_cy := 0,
                               pv_dx := - 10000,
                               pv_dy := - 10000 \<rparr>)
                          transition
                in Inr (inst\<lparr> dom := d,
                               animationState := (animationState inst)
                                 \<lparr> phase := Stuck, progress := Some 1 \<rparr>,
                               savePos := None,
                               timers := timers inst @ [(duration cfg, DropShadowTask)] \<rparr>))))"

definition jsDivide :: "real \<Rightarrow> real \<Rightarrow> real option" where
  "jsDivide v w = (if w = 0 then None else Some (v / w))"

definition handleMouseMove :: "ViewEnv \<Rightarrow> Instance \<Rightarrow> MouseEvent \<Rightarrow> Instance" where
  "handleMouseMove env inst0 e =
     (let inst = (if savePos inst0 = None \<or> elementPos inst0 = None
                  then (let entered = handleMouseEnter env inst0 e
                        in entered\<lparr> documentMouseUp := documentMouseUp entered @ [e] \<rparr>)
                  else inst0)
      in case elementPos inst of
           None \<Rightarrow> inst
         | Some pos \<Rightarrow>
             (let sz = elementSize inst;
                  dir = currentDirection inst;
                  newValues = calculatePeelValues e pos sz dir;
                  d = applyPeelStyles (dom inst) (stickerDOM inst) newValues TransitionAllZero;
                  maxDistance = (if dir = Left \<or> dir = Right then width sz else height sz);
                  currentDistance = (if dir = Left \<or> dir = Right
                                     then \<bar>pv_bmx newValues\<bar> else \<bar>pv_bmy newValues\<bar>)
              in inst\<lparr> dom := d,
                        animationState := (animationState inst)
                          \<lparr> progress := map_option (\<lambda>q. 1 - q)
                                           (jsDivide currentDistance maxDistance) \<rparr> \<rparr>))"

text \<open>
  A \<^verbatim>\<open>mouseup\<close> on the document runs every pending listener that \<^verbatim>\<open>handleMouseMove\<close> has
  registered: it removes itself and calls \<^verbatim>\<open>handleMouseLeave\<close> with the event it captured.
  An exception in one listener does not keep the next from running.
\<close>

fun runMouseUp :: "MouseEvent list \<Rightarrow> Instance \<Rightarrow> Instance" where
  "runMouseUp [] inst = inst"
| "runMouseUp (e # es) inst =
     (let inst1 = inst\<lparr> documentMouseUp := remove1 e (documentMouseUp inst) \<rparr>
      in runMouseUp es (case handleMouseLeave inst1 e of Inl (err, i) \<Rightarrow> i | Inr i \<Rightarrow> i))"

text \<open>
  The touch handlers of \<^verbatim>\<open>setupEventHandlers\<close> build a mouse event from the first touch;
  with no touch, reading \<^verbatim>\<open>touch.clientX\<close> is a TypeError. The page coordinates of the
  event that \<^verbatim>\<open>handleTouchEnd\<close> constructs are the browser's, hence an argument.
\<close>

record Touch =
  touch_pageX :: real
  touch_pageY :: real

definition handleTouchStart ::
  "ViewEnv \<Rightarrow> Instance \<Rightarrow> Touch list \<Rightarrow> (js_error \<times> Instance) + Instance" where
  "handleTouchStart env inst touches =
     (case touches of
        [] \<Rightarrow> Inl (TypeError, inst)
      | touch # _ \<Rightarrow>
          Inr (handleMouseEnter env inst \<lparr> pageX = touch_pageX touch, pageY = touch_pageY touch \<rparr>))"

definition handleTouchEnd :: "Instance \<Rightarrow> MouseEvent \<Rightarrow> (js_error \<times> Instance) + Instance" where
  "handleTouchEnd inst mouseEvent = handleMouseLeave inst mouseEvent"

definition handleTouchMove ::
  "ViewEnv \<Rightarrow> Instance \<Rightarrow> Touch list \<Rightarrow> (js_error \<times> Instance) + Instance" where
  "handleTouchMove env inst touches =
     (case touches of
        [] \<Rightarrow> Inl (TypeError, inst)
      | touch # _ \<Rightarrow>
          Inr (handleMouseMove env inst \<lparr> pageX = touch_pageX touch, pageY = touch_pageY touch \<rparr>))"

section \<open>Visibility trigger\<close>

record IntersectionEntry =
  isIntersecting :: bool

definition showElement :: "Instance \<Rightarrow> Instance" where
  "showElement inst =
     inst\<lparr> dom := setStyle (dom inst) (container (stickerDOM inst)) ''opacity'' (Plain ''1''),
            observer := map_option
              (\<lambda>obs. obs\<lparr> observed := removeAll (container (stickerDOM inst)) (observed obs) \<rparr>)
              (observer inst) \<rparr>"

definition observeEntry :: "IntersectionEntry \<Rightarrow> Instance \<Rightarrow> Instance" where
  "observeEntry entry inst =
     (case observer inst of
        None \<Rightarrow> inst
      | Some obs \<Rightarrow>
          if isIntersecting entry \<and> \<not> hasTriggered obs
          then (let inst1 = inst\<lparr> observer := Some (obs\<lparr> hasTriggered := True \<rparr>) \<rparr>
                in if delay (finalConfig inst) > 0
                   then inst1\<lparr> timers := timers inst1 @ [(delay (finalConfig inst), ShowElementTask)] \<rparr>
                   else showElement inst1)
          else inst)"

text \<open>The callback of the observer: \<^verbatim>\<open>entries.forEach\<close>.\<close>

definition observerCallback :: "IntersectionEntry list \<Rightarrow> Instance \<Rightarrow> Instance" where
  "observerCallback entries inst = fold observeEntry entries inst"

definition runTimerTask :: "timer_task \<Rightarrow> Instance \<Rightarrow> Instance" where
  "runTimerTask task inst =
     (case task of
        DropShadowTask \<Rightarrow>
          inst\<lparr> dom := setStyle (dom inst) (container (stickerDOM inst)) ''filter'' dropShadow \<rparr>
      | ShowElementTask \<Rightarrow> showElement inst)"

section \<open>Control methods\<close>

definition runCleanup :: "cleanup \<Rightarrow> Instance \<Rightarrow> Instance" where
  "runCleanup c inst =
     (case c of
        CleanupNothing \<Rightarrow> inst
      | CleanupStyles \<Rightarrow> inst\<lparr> dom := removeGlobalStyles (dom inst) \<rparr>
      | CleanupEvents \<Rightarrow> inst\<lparr> listeners := cleanupEvents (stickerDOM inst) (listeners inst) \<rparr>
      | CleanupObserver \<Rightarrow>
          inst\<lparr> observer := map_option (\<lambda>obs. obs\<lparr> observed := [] \<rparr>) (observer inst) \<rparr>)"

definition destroy :: "Instance \<Rightarrow> (js_error \<times> Instance) + Instance" where
  "destroy inst0 =
     (let inst = fold runCleanup (cleanupFunctions inst0) inst0;
          target = targetElement inst;
          wrapper = wrapperElement inst;
          d = removeNode (dom inst) (container (stickerDOM inst));
          d = clearStyle d target ''display'';
          finish = (\<lambda>d. inst\<lparr> dom := d,
                              animationState := (animationState inst)
                                \<lparr> phase := Idle, progress := Some 0 \<rparr> \<rparr>)
      in case parentNode d wrapper of
           None \<Rightarrow> Inr (finish d)
         | Some wrapperParent \<Rightarrow>
             if parentNode d target = Some wrapper
             then (case insertBefore d wrapperParent target wrapper of
                     Inl (err, d') \<Rightarrow> Inl (err, inst\<lparr> dom := d' \<rparr>)
                   | Inr d' \<Rightarrow> Inr (finish (removeNode d' wrapper)))
             else Inr (finish d))"

definition reset :: "Instance \<Rightarrow> Instance" where
  "reset inst =
     inst\<lparr> animationState := (animationState inst)
              \<lparr> phase := Idle, progress := Some 0, startTime := 0,
                currentTransform := initialTransform \<rparr> \<rparr>"

definition trigger :: "real \<Rightarrow> Instance \<Rightarrow> Instance" where
  "trigger dateNow inst =
     (if phase (animationState inst) = Idle \<or> phase (animationState inst) = Stuck
      then inst\<lparr> animationState := (animationState inst)
                   \<lparr> phase := Peeling, startTime := dateNow \<rparr> \<rparr>
      else inst)"

section \<open>The life of an instance\<close>

text \<open>
  Everything that can happen to an instance after its construction. An event on the
  container reaches its handler while the listener is registered; an exception in a
  handler is reported by the browser and leaves the state as the throw left it.
\<close>

datatype event =
    MouseEnter ViewEnv MouseEvent
  | MouseLeave MouseEvent
  | MouseMove ViewEnv MouseEvent
  | TouchStart ViewEnv "Touch list"
  | TouchEnd MouseEvent
  | TouchMove ViewEnv "Touch list"
  | DocumentMouseUp
  | Intersection "IntersectionEntry list"
  | TimerFires nat
  | Destroy
  | Reset
  | Trigger real

definition settle :: "(js_error \<times> Instance) + Instance \<Rightarrow> Instance" where
  "settle r = (case r of Inl (err, i) \<Rightarrow> i | Inr i \<Rightarrow> i)"

definition listening :: "Instance \<Rightarrow> string \<Rightarrow> bool" where
  "listening inst ev = ((container (stickerDOM inst), ev) \<in> set (listeners inst))"

definition step :: "Instance \<Rightarrow> event \<Rightarrow> Instance" where
  "step inst ev =
     (case ev of
        MouseEnter env e \<Rightarrow>
          if listening inst ''mouseenter'' then handleMouseEnter env inst e else inst
      | MouseLeave e \<Rightarrow>
          if listening inst ''mouseleave'' then settle (handleMouseLeave inst e) else inst
      | MouseMove env e \<Rightarrow>
          if listening inst ''mousemove'' then handleMouseMove env inst e else inst
      | TouchStart env touches \<Rightarrow>
          if listening inst ''touchstart'' then settle (handleTouchStart env inst touches) else inst
      | TouchEnd e \<Rightarrow>
          if listening inst ''touchend'' then settle (handleTouchEnd inst e) else inst
      | TouchMove env touches \<Rightarrow>
          if listening inst ''touchmove'' then settle (handleTouchMove env inst touches) else inst
      | DocumentMouseUp \<Rightarrow> runMouseUp (documentMouseUp inst) inst
      | Intersection entries \<Rightarrow> observerCallback entries inst
      | TimerFires k \<Rightarrow>
          if k < length (timers inst)
          then runTimerTask (snd (timers inst ! k))
                 (inst\<lparr> timers := take k (timers inst) @ drop (Suc k) (timers inst) \<rparr>)
          else inst
      | Destroy \<Rightarrow> settle (destroy inst)
      | Reset \<Rightarrow> reset inst
      | Trigger dateNow \<Rightarrow> trigger dateNow inst)"

definition run :: "Instance \<Rightarrow> event list \<Rightarrow> Instance" where
  "run inst evs = foldl step inst evs"

section \<open>The auto-animation driver (sticker-animation-auto)\<close>

record AutoAnimationConfig =
  auto_duration :: real
  auto_easing :: string
  auto_direction :: Direction
  auto_shadowIntensity :: real

text \<open>
  The variables of one call of \<^verbatim>\<open>createAutoAnimation\<close>, with the document. A frame handle
  is a positive number, \<open>lastFrame\<close> the last one that \<^verbatim>\<open>requestAnimationFrame\<close> issued.
  \<^verbatim>\<open>!startTime\<close> holds for null and for zero.
\<close>

record AutoAnimation =
  auto_dom :: DOM
  animationFrame :: "nat option"
  auto_startTime :: "real option"
  isAnimating :: bool
  lastFrame :: nat

definition requestAnimationFrame :: "AutoAnimation \<Rightarrow> AutoAnimation" where
  "requestAnimationFrame st =
     st\<lparr> animationFrame := Some (Suc (lastFrame st)), lastFrame := Suc (lastFrame st) \<rparr>"

text \<open>One frame; \<open>None\<close> when the progress is not a finite number.\<close>

definition animate ::
  "DOMStructure \<Rightarrow> real \<Rightarrow> AutoAnimationConfig \<Rightarrow> AutoAnimation \<Rightarrow> real \<Rightarrow> AutoAnimation option" where
  "animate structure sz config st0 currentTime =
     (let started = (case auto_startTime st0 of
                       None \<Rightarrow> currentTime
                     | Some t0 \<Rightarrow> if t0 = 0 then currentTime else t0);
          st = st0\<lparr> auto_startTime := Some started \<rparr>;
          elapsed = currentTime - started
      in case progressAt (auto_duration config) elapsed of
           None \<Rightarrow> None
         | Some prog \<Rightarrow>
             (case easedProgressAt (auto_duration config) elapsed of
                None \<Rightarrow> None
              | Some easedProgress \<Rightarrow>
                  (let peelValues = calculateAutoAnimationValues sz (auto_direction config)
                                      easedProgress (auto_shadowIntensity config);
                       st = st\<lparr> auto_dom := applyPeelStyles (auto_dom st) structure peelValues
                                                TransitionAllZero \<rparr>
                   in if prog < 1 then Some (requestAnimationFrame st)
                      else Some (st\<lparr> isAnimating := False,
                                      auto_dom := setStyle (auto_dom st) (container structure)
                                                    ''filter'' dropShadow \<rparr>))))"

definition start :: "DOMStructure \<Rightarrow> real \<Rightarrow> AutoAnimationConfig \<Rightarrow> AutoAnimation \<Rightarrow> AutoAnimation" where
  "start structure sz config st =
     (if isAnimating st then st
      else let initialValues = calculateAutoAnimationValues sz (auto_direction config) 0
                                 (auto_shadowIntensity config);
               st = st\<lparr> auto_dom := applyPeelStyles (auto_dom st) structure initialValues
                                        TransitionAllZero \<rparr>
           in requestAnimationFrame (st\<lparr> isAnimating := True, auto_startTime := None \<rparr>))"

definition stop :: "AutoAnimation \<Rightarrow> AutoAnimation" where
  "stop st =
     (let st1 = (case animationFrame st of
                   None \<Rightarrow> st
                 | Some handle \<Rightarrow> if handle \<noteq> 0 then st\<lparr> animationFrame := None \<rparr> else st)
      in st1\<lparr> isAnimating := False \<rparr>)"

definition createAutoAnimation ::
  "DOM \<Rightarrow> DOMStructure \<Rightarrow> real \<Rightarrow> AutoAnimationConfig \<Rightarrow> AutoAnimation" where
  "createAutoAnimation d structure sz config =
     start structure sz config
       \<lparr> auto_dom = d, animationFrame = None, auto_startTime = None, isAnimating = False,
         lastFrame = 0 \<rparr>"

section \<open>Properties of the direction classifier and the geometry calculator\<close>

text \<open>
  C1: for every pointer position, with \<open>tx\<close> and \<open>ty\<close> the offsets from the element's
  top-left corner and \<open>q\<close> the threshold, \<^verbatim>\<open>getDirection\<close> answers left when \<open>tx < q\<close>,
  otherwise right when \<open>tx > 3q\<close>, otherwise top when \<open>ty < q\<close>, and bottom in all remaining
  cases; the answer is always one of the four directions. For an element of 400 by 400,
  where the threshold \<open>min(width, height) / 4\<close> of \<^verbatim>\<open>handleMouseEnter\<close> is 100, the offsets
  (50,50), (350,50), (200,50) and (200,350) give left, right, top and bottom.
\<close>

theorem getDirection_quadrants:
  "(pageX e - pos_x pos < q \<longrightarrow> getDirection e pos q = Left)
   \<and> (\<not> pageX e - pos_x pos < q \<and> 3 * q < pageX e - pos_x pos
        \<longrightarrow> getDirection e pos q = Right)
   \<and> (0 \<le> q \<and> 3 * q < pageX e - pos_x pos \<longrightarrow> getDirection e pos q = Right)
   \<and> (\<not> pageX e - pos_x pos < q \<and> \<not> 3 * q < pageX e - pos_x pos
        \<and> pageY e - pos_y pos < q \<longrightarrow> getDirection e pos q = Top)
   \<and> (\<not> pageX e - pos_x pos < q \<and> \<not> 3 * q < pageX e - pos_x pos
        \<and> \<not> pageY e - pos_y pos < q \<longrightarrow> getDirection e pos q = Bottom)
   \<and> getDirection e pos q \<in> {Left, Right, Top, Bottom}
   \<and> sizeQ_of \<lparr>width = 400, height = 400\<rparr> = 100
   \<and> getDirection \<lparr>pageX = pos_x pos + 50, pageY = pos_y pos + 50\<rparr> pos
         (sizeQ_of \<lparr>width = 400, height = 400\<rparr>) = Left
   \<and> getDirection \<lparr>pageX = pos_x pos + 350, pageY = pos_y pos + 50\<rparr> pos
         (sizeQ_of \<lparr>width = 400, height = 400\<rparr>) = Right
   \<and> getDirection \<lparr>pageX = pos_x pos + 200, pageY = pos_y pos + 50\<rparr> pos
         (sizeQ_of \<lparr>width = 400, height = 400\<rparr>) = Top
   \<and> getDirection \<lparr>pageX = pos_x pos + 200, pageY = pos_y pos + 350\<rparr> pos
         (sizeQ_of \<lparr>width = 400, height = 400\<rparr>) = Bottom"
  by (simp add: getDirection_def sizeQ_of_def Let_def)

theorem getDirection_quadrants_witness:
  "((50::real) - 0 < 100
      \<and> getDirection \<lparr>pageX = 50, pageY = 50\<rparr> \<lparr>pos_x = 0, pos_y = 0\<rparr> 100 = Left)
   \<and> (\<not> (350::real) - 0 < 100 \<and> (3::real) * 100 < 350 - 0 \<and> (0::real) \<le> 100
      \<and> getDirection \<lparr>pageX = 350, pageY = 50\<rparr> \<lparr>pos_x = 0, pos_y = 0\<rparr> 100 = Right)
   \<and> (\<not> (200::real) - 0 < 100 \<and> \<not> (3::real) * 100 < 200 - 0 \<and> (50::real) - 0 < 100
      \<and> getDirection \<lparr>pageX = 200, pageY = 50\<rparr> \<lparr>pos_x = 0, pos_y = 0\<rparr> 100 = Top)
   \<and> (\<not> (200::real) - 0 < 100 \<and> \<not> (3::real) * 100 < 200 - 0 \<and> \<not> (350::real) - 0 < 100
      \<and> getDirection \<lparr>pageX = 200, pageY = 350\<rparr> \<lparr>pos_x = 0, pos_y = 0\<rparr> 100 = Bottom)"
  using getDirection_quadrants [of "\<lparr>pageX = 50, pageY = 50\<rparr>" "\<lparr>pos_x = 0, pos_y = 0\<rparr>" 100]
        getDirection_quadrants [of "\<lparr>pageX = 350, pageY = 50\<rparr>" "\<lparr>pos_x = 0, pos_y = 0\<rparr>" 100]
        getDirection_quadrants [of "\<lparr>pageX = 200, pageY = 50\<rparr>" "\<lparr>pos_x = 0, pos_y = 0\<rparr>" 100]
        getDirection_quadrants [of "\<lparr>pageX = 200, pageY = 350\<rparr>" "\<lparr>pos_x = 0, pos_y = 0\<rparr>" 100]
  by simp

text \<open>
  C3: along the peel axis the back face is translated by \<open>-extent + peeledOffset\<close>, with
  the sign mirrored for the opposite direction: for left \<open>bmx = -width + tx\<close>, for top
  \<open>bmy = -height + ty\<close>, for right \<open>bmx = width - (width - tx)\<close>, which is \<open>tx\<close>, and for
  bottom \<open>bmy = height - (height - ty)\<close>, which is \<open>ty\<close>; the translation across the axis is
  zero. At a peeled offset of zero the back face is moved by the whole extent, off the
  element.
\<close>

theorem backface_translation:
  "pv_bmx (calculatePeelValues e pos sz Left) = - width sz + (pageX e - pos_x pos)
   \<and> pv_bmy (calculatePeelValues e pos sz Left) = 0
   \<and> pv_bmx (calculatePeelValues e pos sz Right) = width sz - (width sz - (pageX e - pos_x pos))
   \<and> pv_bmx (calculatePeelValues e pos sz Right) = pageX e - pos_x pos
   \<and> pv_bmy (calculatePeelValues e pos sz Right) = 0
   \<and> pv_bmy (calculatePeelValues e pos sz Top) = - height sz + (pageY e - pos_y pos)
   \<and> pv_bmx (calculatePeelValues e pos sz Top) = 0
   \<and> pv_bmy (calculatePeelValues e pos sz Bottom) = height sz - (height sz - (pageY e - pos_y pos))
   \<and> pv_bmy (calculatePeelValues e pos sz Bottom) = pageY e - pos_y pos
   \<and> pv_bmx (calculatePeelValues e pos sz Bottom) = 0
   \<and> pv_bmx (calculatePeelValues \<lparr>pageX = pos_x pos, pageY = py\<rparr> pos sz Left) = - width sz
   \<and> pv_bmx (calculatePeelValues \<lparr>pageX = pos_x pos + width sz, pageY = py\<rparr> pos sz Right)
        = width sz
   \<and> pv_bmy (calculatePeelValues \<lparr>pageX = px, pageY = pos_y pos\<rparr> pos sz Top) = - height sz
   \<and> pv_bmy (calculatePeelValues \<lparr>pageX = px, pageY = pos_y pos + height sz\<rparr> pos sz Bottom)
        = height sz"
  by (simp add: calculatePeelValues_def Let_def)

section \<open>Properties of the auto animation\<close>

lemma four_iterations: "(4::nat) = Suc (Suc (Suc (Suc 0)))"
  by simp

lemma cubicBezier_ease:
  "cubicBezier (23 / 100) 1 (8 / 25) 1 t =
     map_option easeY (newtonRaphson (73 / 100) (- (21 / 50)) (69 / 100) t 4 t)"
  by (simp add: cubicBezier_def Let_def easeY_def split: option.splits)

lemma easeSlope_lower: "3 / 5 \<le> easeSlope x"
proof -
  have "easeSlope x - 3 / 5 = 219 / 100 * (x - 14 / 73)\<^sup>2 + 69 / 7300"
    by (simp add: easeSlope_def power2_eq_square algebra_simps)
  moreover have "0 \<le> 219 / 100 * (x - 14 / 73)\<^sup>2" by simp
  ultimately show ?thesis by linarith
qed

lemma newton_unfold:
  "newtonRaphson (73 / 100) (- (21 / 50)) (69 / 100) t (Suc n) x =
     (if \<bar>easeX x - t\<bar> < 1 / 1000 then Some x
      else newtonRaphson (73 / 100) (- (21 / 50)) (69 / 100) t n
             (x - (easeX x - t) / easeSlope x))"
proof -
  have s: "easeSlope x \<noteq> 0" using easeSlope_lower [of x] by linarith
  have e1: "((73 / 100 * x + - (21 / 50)) * x + 69 / 100) * x = easeX x"
    by (simp add: easeX_def)
  have e2: "(3 * (73 / 100) * x + 2 * - (21 / 50)) * x + 69 / 100 = easeSlope x"
    by (simp add: easeSlope_def)
  show ?thesis
    apply (subst newtonRaphson.simps(2))
    apply (simp only: Let_def e1 e2)
    using s apply simp
    done
qed


lemma ease_curvature_bound: "\<bar>219 / 100 * x - 21 / 50\<bar> \<le> 6 / 5 * (easeSlope x)\<^sup>2"
proof -
  define u where "u = x - 14 / 73"
  have L: "219 / 100 * x - 21 / 50 = 219 / 100 * u"
    by (simp add: u_def algebra_simps)
  have S: "easeSlope x = 219 / 100 * u\<^sup>2 + 3 / 5 + 69 / 7300"
    by (simp add: easeSlope_def u_def power2_eq_square algebra_simps)
  have u2: "0 \<le> u\<^sup>2" by simp
  have low: "219 / 100 * u\<^sup>2 + 3 / 5 \<le> easeSlope x"
    using S by linarith
  have nn: "0 \<le> 219 / 100 * u\<^sup>2 + 3 / 5"
    using u2 by linarith
  define w where "w = 219 / 100 * u\<^sup>2"
  have w0: "0 \<le> w" using u2 by (simp add: w_def)
  have sq: "(w + 3 / 5)\<^sup>2 \<le> (easeSlope x)\<^sup>2"
    using low nn unfolding w_def by (rule power_mono [OF _ _])
  have ex: "(w + 3 / 5)\<^sup>2 = w * w + 6 / 5 * w + 9 / 25"
    by (simp add: power2_eq_square algebra_simps)
  have q4: "0 \<le> w * w" using w0 by simp
  have "6 / 5 * w + 9 / 25 \<le> (easeSlope x)\<^sup>2"
    using sq ex q4 by linarith
  then have b1: "6 / 5 * (657 / 250 * u\<^sup>2 + 9 / 25) \<le> 6 / 5 * (easeSlope x)\<^sup>2"
    by (simp add: w_def)
  have p1: "6 / 5 * (657 / 250 * u\<^sup>2 + 9 / 25) - 219 / 100 * u
              = 3 * (u - 73 / 200)\<^sup>2 + 96 / 625 * u\<^sup>2 + 1293 / 40000"
    by (simp add: power2_eq_square algebra_simps)
  have p2: "6 / 5 * (657 / 250 * u\<^sup>2 + 9 / 25) + 219 / 100 * u
              = 3 * (u + 73 / 200)\<^sup>2 + 96 / 625 * u\<^sup>2 + 1293 / 40000"
    by (simp add: power2_eq_square algebra_simps)
  have s1: "0 \<le> 3 * (u - 73 / 200)\<^sup>2" and s2: "0 \<le> 3 * (u + 73 / 200)\<^sup>2"
    by simp_all
  have "219 / 100 * u \<le> 6 / 5 * (657 / 250 * u\<^sup>2 + 9 / 25)"
    using p1 s1 u2 by linarith
  moreover have "- (219 / 100 * u) \<le> 6 / 5 * (657 / 250 * u\<^sup>2 + 9 / 25)"
    using p2 s2 u2 by linarith
  ultimately have "\<bar>219 / 100 * u\<bar> \<le> 6 / 5 * (657 / 250 * u\<^sup>2 + 9 / 25)"
    by (simp add: abs_le_iff)
  with b1 show ?thesis unfolding L by linarith
qed

lemma newton_step_residual:
  "easeX (x - (easeX x - t) / easeSlope x) - t
     = ((easeX x - t) / easeSlope x)\<^sup>2
         * (219 / 100 * x - 21 / 50 - 73 / 100 * ((easeX x - t) / easeSlope x))"
proof -
  define q where "q = (easeX x - t) / easeSlope x"
  have s: "easeSlope x \<noteq> 0" using easeSlope_lower [of x] by linarith
  have sq: "easeSlope x * q = easeX x - t"
    using s by (simp add: q_def)
  have taylor: "easeX (x - q)
                  = easeX x - easeSlope x * q + (219 / 100 * x - 21 / 50) * q\<^sup>2
                      - 73 / 100 * q ^ 3"
    unfolding easeX_def easeSlope_def power2_eq_square power3_eq_cube
    by (simp add: field_simps)
  have "easeX (x - q) - t = (219 / 100 * x - 21 / 50) * q\<^sup>2 - 73 / 100 * q ^ 3"
    using taylor sq by linarith
  also have "\<dots> = q\<^sup>2 * (219 / 100 * x - 21 / 50 - 73 / 100 * q)"
    by (simp add: power2_eq_square power3_eq_cube algebra_simps)
  finally show ?thesis by (simp add: q_def)
qed

lemma newton_contracts:
  assumes "\<bar>easeX x - t\<bar> \<le> \<rho>"
  shows "\<bar>easeX (x - (easeX x - t) / easeSlope x) - t\<bar> \<le> 6 / 5 * \<rho>\<^sup>2 + 169 / 50 * \<rho> ^ 3"
proof -
  define q where "q = (easeX x - t) / easeSlope x"
  define c where "c = 219 / 100 * x - 21 / 50"
  have \<rho>0: "0 \<le> \<rho>" using assms by linarith
  have s: "3 / 5 \<le> easeSlope x" by (rule easeSlope_lower)
  have spos: "0 < easeSlope x" using s by linarith
  have aq: "\<bar>q\<bar> = \<bar>easeX x - t\<bar> / easeSlope x"
    using spos by (simp add: q_def)
  have "\<bar>easeX x - t\<bar> / easeSlope x \<le> \<rho> / (3 / 5)"
    using assms s \<rho>0 by (intro frac_le) simp_all
  then have q1: "\<bar>q\<bar> \<le> 5 / 3 * \<rho>"
    by (simp add: aq)
  have q3: "\<bar>q\<bar> ^ 3 \<le> (5 / 3 * \<rho>) ^ 3"
    using q1 by (intro power_mono) simp_all
  have q2c: "q\<^sup>2 * \<bar>c\<bar> \<le> 6 / 5 * \<rho>\<^sup>2"
  proof -
    have "q\<^sup>2 * \<bar>c\<bar> \<le> q\<^sup>2 * (6 / 5 * (easeSlope x)\<^sup>2)"
      using ease_curvature_bound [of x] by (intro mult_left_mono) (simp_all add: c_def)
    also have "\<dots> = 6 / 5 * (easeX x - t)\<^sup>2"
      using spos by (simp add: q_def power_divide)
    also have "\<dots> \<le> 6 / 5 * \<rho>\<^sup>2"
    proof -
      have "(easeX x - t)\<^sup>2 = \<bar>easeX x - t\<bar>\<^sup>2" by simp
      also have "\<dots> \<le> \<rho>\<^sup>2" using assms by (intro power_mono) simp_all
      finally show ?thesis by simp
    qed
    finally show ?thesis .
  qed
  have "\<bar>easeX (x - q) - t\<bar> = \<bar>q\<^sup>2 * (c - 73 / 100 * q)\<bar>"
    using newton_step_residual [of x t] by (simp add: q_def c_def)
  also have "\<dots> = q\<^sup>2 * \<bar>c - 73 / 100 * q\<bar>"
    by (simp add: abs_mult)
  also have "\<dots> \<le> q\<^sup>2 * (\<bar>c\<bar> + 73 / 100 * \<bar>q\<bar>)"
    by (intro mult_left_mono) (simp_all add: abs_mult)
  also have "\<dots> = q\<^sup>2 * \<bar>c\<bar> + 73 / 100 * \<bar>q\<bar> ^ 3"
    by (simp add: power2_eq_square power3_eq_cube algebra_simps abs_mult)
  also have "\<dots> \<le> 6 / 5 * \<rho>\<^sup>2 + 73 / 100 * (5 / 3 * \<rho>) ^ 3"
    using q2c q3 by linarith
  also have "\<dots> \<le> 6 / 5 * \<rho>\<^sup>2 + 169 / 50 * \<rho> ^ 3"
  proof -
    have "73 / 100 * (5 / 3 * \<rho>) ^ 3 = 365 / 108 * \<rho> ^ 3"
      by (simp add: power3_eq_cube)
    moreover have "365 / 108 * \<rho> ^ 3 \<le> 169 / 50 * \<rho> ^ 3"
      using \<rho>0 by (intro mult_right_mono) simp_all
    ultimately show ?thesis by linarith
  qed
  finally show ?thesis by (simp add: q_def)
qed


lemma ease_start_residual:
  assumes "0 \<le> t" and "t \<le> 1"
  shows "\<bar>easeX t - t\<bar> \<le> 1 / 5"
proof -
  have up: "easeX t - t = - (t * (1 - t) * (73 / 100 * t + 31 / 100))"
    unfolding easeX_def by (simp add: field_simps)
  have "0 \<le> t * (1 - t) * (73 / 100 * t + 31 / 100)"
    using assms by (intro mult_nonneg_nonneg) simp_all
  then have le0: "easeX t - t \<le> 0" using up by linarith
  have low: "1 / 5 + (easeX t - t)
               = (t - 5 / 8)\<^sup>2 * (73 / 100 * t + 197 / 400) + 131 / 6400 * t + 39 / 5120"
    unfolding easeX_def power2_eq_square by (simp add: field_simps)
  have "0 \<le> (t - 5 / 8)\<^sup>2 * (73 / 100 * t + 197 / 400)"
    using assms by (intro mult_nonneg_nonneg) simp_all
  then have "0 \<le> 1 / 5 + (easeX t - t)"
    using low assms by linarith
  with le0 show ?thesis by (simp add: abs_le_iff)
qed

lemma newton_exit_now:
  assumes "\<bar>easeX x - t\<bar> < 1 / 1000"
  shows "\<exists>z. newtonRaphson (73 / 100) (- (21 / 50)) (69 / 100) t (Suc n) x = Some z
             \<and> \<bar>easeX z - t\<bar> < 1 / 1000"
  using assms by (simp add: newton_unfold del: newtonRaphson.simps)

lemma newton_exit_next:
  assumes "\<bar>easeX x - t\<bar> \<le> 1 / 100"
  shows "\<exists>z. newtonRaphson (73 / 100) (- (21 / 50)) (69 / 100) t (Suc (Suc n)) x = Some z
             \<and> \<bar>easeX z - t\<bar> < 1 / 1000"
proof (cases "\<bar>easeX x - t\<bar> < 1 / 1000")
  case True
  then show ?thesis by (rule newton_exit_now)
next
  case False
  have "\<bar>easeX (x - (easeX x - t) / easeSlope x) - t\<bar> \<le> 6 / 5 * (1 / 100)\<^sup>2 + 169 / 50 * (1 / 100) ^ 3"
    using assms by (rule newton_contracts)
  also have "\<dots> < (1 / 1000 :: real)"
    by (simp add: power2_eq_square power3_eq_cube)
  finally have "\<exists>z. newtonRaphson (73 / 100) (- (21 / 50)) (69 / 100) t (Suc n)
                       (x - (easeX x - t) / easeSlope x) = Some z
                  \<and> \<bar>easeX z - t\<bar> < 1 / 1000"
    by (rule newton_exit_now)
  then show ?thesis
    using False by (simp add: newton_unfold del: newtonRaphson.simps)
qed

lemma newton_exit_third:
  assumes "\<bar>easeX x - t\<bar> \<le> 2 / 25"
  shows "\<exists>z. newtonRaphson (73 / 100) (- (21 / 50)) (69 / 100) t (Suc (Suc (Suc n))) x = Some z
             \<and> \<bar>easeX z - t\<bar> < 1 / 1000"
proof (cases "\<bar>easeX x - t\<bar> < 1 / 1000")
  case True
  then show ?thesis by (rule newton_exit_now)
next
  case False
  have "\<bar>easeX (x - (easeX x - t) / easeSlope x) - t\<bar> \<le> 6 / 5 * (2 / 25)\<^sup>2 + 169 / 50 * (2 / 25) ^ 3"
    using assms by (rule newton_contracts)
  also have "\<dots> \<le> (1 / 100 :: real)"
    by (simp add: power2_eq_square power3_eq_cube)
  finally have "\<exists>z. newtonRaphson (73 / 100) (- (21 / 50)) (69 / 100) t (Suc (Suc n))
                       (x - (easeX x - t) / easeSlope x) = Some z
                  \<and> \<bar>easeX z - t\<bar> < 1 / 1000"
    by (rule newton_exit_next)
  then show ?thesis
    using False by (simp add: newton_unfold del: newtonRaphson.simps)
qed

lemma newton_exit_fourth:
  assumes "\<bar>easeX x - t\<bar> \<le> 1 / 5"
  shows "\<exists>z. newtonRaphson (73 / 100) (- (21 / 50)) (69 / 100) t 4 x = Some z
             \<and> \<bar>easeX z - t\<bar> < 1 / 1000"
proof (cases "\<bar>easeX x - t\<bar> < 1 / 1000")
  case True
  then show ?thesis unfolding four_iterations by (rule newton_exit_now)
next
  case False
  have "\<bar>easeX (x - (easeX x - t) / easeSlope x) - t\<bar> \<le> 6 / 5 * (1 / 5)\<^sup>2 + 169 / 50 * (1 / 5) ^ 3"
    using assms by (rule newton_contracts)
  also have "\<dots> \<le> (2 / 25 :: real)"
    by (simp add: power2_eq_square power3_eq_cube)
  finally have "\<exists>z. newtonRaphson (73 / 100) (- (21 / 50)) (69 / 100) t (Suc (Suc (Suc 0)))
                       (x - (easeX x - t) / easeSlope x) = Some z
                  \<and> \<bar>easeX z - t\<bar> < 1 / 1000"
    by (rule newton_exit_third)
  then show ?thesis
    unfolding four_iterations using False by (simp add: newton_unfold del: newtonRaphson.simps)
qed

lemma cubicBezier_solves:
  assumes "0 \<le> t" and "t \<le> 1"
  shows "\<exists>z. cubicBezier 0.23 1 0.32 1 t = Some (easeY z) \<and> \<bar>easeX z - t\<bar> < 1 / 1000"
proof -
  obtain z where "newtonRaphson (73 / 100) (- (21 / 50)) (69 / 100) t 4 t = Some z"
    and "\<bar>easeX z - t\<bar> < 1 / 1000"
    using newton_exit_fourth [OF ease_start_residual [OF assms]] by blast
  then show ?thesis by (auto simp: cubicBezier_ease)
qed

lemma easeX_increases:
  assumes "b \<le> a"
  shows "609 / 1000 * (a - b) \<le> easeX a - easeX b"
proof -
  define Q where "Q = 73 / 100 * (a * a + a * b + b * b) - 21 / 50 * (a + b) + 69 / 100"
  have d: "easeX a - easeX b = (a - b) * Q"
    unfolding easeX_def Q_def by (simp add: field_simps)
  have "Q - 609 / 1000
          = 219 / 400 * (a + b - 28 / 73)\<^sup>2 + 73 / 400 * (a - b)\<^sup>2 + 33 / 73000"
    unfolding Q_def power2_eq_square by (simp add: field_simps)
  moreover have "0 \<le> 219 / 400 * (a + b - 28 / 73)\<^sup>2" and "0 \<le> 73 / 400 * (a - b)\<^sup>2"
    by simp_all
  ultimately have "609 / 1000 \<le> Q" by linarith
  then have "(a - b) * (609 / 1000) \<le> (a - b) * Q"
    using assms by (intro mult_left_mono) simp_all
  then show ?thesis by (simp add: d mult.commute)
qed

lemma easeY_difference:
  "easeY a - easeY b = (a - b) * ((1 - a)\<^sup>2 + (1 - a) * (1 - b) + (1 - b)\<^sup>2)"
  unfolding easeY_def power2_eq_square by (simp add: field_simps)

lemma easeY_factor_nonneg: "0 \<le> (p::real)\<^sup>2 + p * q + q\<^sup>2"
proof -
  have "p\<^sup>2 + p * q + q\<^sup>2 = (p + q / 2)\<^sup>2 + 3 / 4 * q\<^sup>2"
    by (simp add: power2_eq_square algebra_simps)
  moreover have "0 \<le> (p + q / 2)\<^sup>2" and "0 \<le> 3 / 4 * q\<^sup>2" by simp_all
  ultimately show ?thesis by linarith
qed

lemma easeY_mono:
  assumes "a \<le> b"
  shows "easeY a \<le> easeY b"
proof -
  have "0 \<le> (b - a) * ((1 - b)\<^sup>2 + (1 - b) * (1 - a) + (1 - a)\<^sup>2)"
    using assms easeY_factor_nonneg [of "1 - b" "1 - a"] by (intro mult_nonneg_nonneg) simp_all
  then show ?thesis using easeY_difference [of b a] by linarith
qed

lemma ease_nearly_monotone:
  assumes r1: "\<bar>easeX z1 - t1\<bar> < 1 / 1000" and r2: "\<bar>easeX z2 - t2\<bar> < 1 / 1000"
    and t: "0 \<le> t1" "t1 \<le> t2" "t2 \<le> 1"
  shows "easeY z1 - 1 / 100 < easeY z2"
proof (cases "z1 \<le> z2")
  case True
  then show ?thesis using easeY_mono [of z1 z2] by linarith
next
  case False
  then have lt: "z2 < z1" by simp
  have X0: "easeX 0 = 0" and X1: "easeX 1 = 1"
    by (simp_all add: easeX_def)
  have a1: "easeX z1 < t1 + 1 / 1000" using r1 by linarith
  have a2: "t2 - 1 / 1000 < easeX z2" using r2 by linarith
  have gap: "z1 - z2 < 2 / 609"
    using easeX_increases [of z2 z1] lt a1 a2 t by simp
  have hi: "z1 < 501 / 500"
  proof (cases "z1 \<le> 1")
    case True
    then show ?thesis by simp
  next
    case False
    then have "609 / 1000 * (z1 - 1) \<le> easeX z1 - easeX 1"
      by (intro easeX_increases) simp
    then have "609 / 1000 * (z1 - 1) \<le> easeX z1 - 1"
      by (simp only: X1)
    then show ?thesis
      using a1 t by argo
  qed
  have lo: "- (1 / 500) < z2"
  proof (cases "0 \<le> z2")
    case True
    then show ?thesis by simp
  next
    case False
    then have "609 / 1000 * (0 - z2) \<le> easeX 0 - easeX z2"
      by (intro easeX_increases) simp
    then have "609 / 1000 * (0 - z2) \<le> 0 - easeX z2"
      by (simp only: X0)
    then show ?thesis
      using a2 t by argo
  qed
  define p where "p = 1 - z1"
  define q where "q = 1 - z2"
  have "- (501 / 500) \<le> p" "p \<le> 501 / 500" "- (501 / 500) \<le> q" "q \<le> 501 / 500"
    using hi lo lt unfolding p_def q_def by argo+
  then have pq: "\<bar>p\<bar> \<le> 501 / 500" "\<bar>q\<bar> \<le> 501 / 500"
    by (simp_all add: abs_le_iff)
  have pp: "p\<^sup>2 \<le> (501 / 500)\<^sup>2" and qq: "q\<^sup>2 \<le> (501 / 500)\<^sup>2"
    using pq by (simp_all add: abs_le_square_iff [symmetric])
  have "p * q \<le> \<bar>p\<bar> * \<bar>q\<bar>"
    by (metis abs_ge_self abs_mult)
  also have "\<dots> \<le> 501 / 500 * (501 / 500)"
    using pq by (intro mult_mono) simp_all
  finally have pq2: "p * q \<le> (501 / 500)\<^sup>2"
    by (simp add: power2_eq_square)
  have F: "p\<^sup>2 + p * q + q\<^sup>2 \<le> 3 * (501 / 500)\<^sup>2"
    using pp qq pq2 by linarith
  have "easeY z1 - easeY z2 = (z1 - z2) * (p\<^sup>2 + p * q + q\<^sup>2)"
    by (simp add: easeY_difference p_def q_def)
  also have "\<dots> \<le> 2 / 609 * (3 * (501 / 500)\<^sup>2)"
    using gap lt F easeY_factor_nonneg [of p q] by (intro mult_mono) simp_all
  also have "\<dots> < (1 / 100 :: real)"
    by (simp add: power2_eq_square)
  finally show ?thesis by linarith
qed


text \<open>
  C4, as the specification states it, fails: the eased progress is not non-decreasing in
  the elapsed time. With a duration of 10000 ms the frame at 9990 ms takes one Newton step
  and lands above the root, the frame at 9991 ms is within the tolerance at once and
  keeps the linear progress, which is smaller. Nor does the claim hold for a duration
  that is not positive: with duration 0 the progress at elapsed time 0 is \<open>0 / 0\<close>, not a
  number, and with duration \<open>-1\<close> the eased progress at elapsed time 0, which is not below
  the duration, is 0 and not 1.
\<close>

theorem eased_progress_not_monotone:
  "easedProgressAt 10000 9990
     = Some (39099868995218713251165677841129 / 39099868999823823240377125000000)
   \<and> easedProgressAt 10000 9991 = Some (999999999271 / 1000000000000)
   \<and> (999999999271 / 1000000000000 :: real)
       < 39099868995218713251165677841129 / 39099868999823823240377125000000
   \<and> easedProgressAt 0 0 = None
   \<and> easedProgressAt (- 1) 0 = Some 0"
  by (simp add: easedProgressAt_def progressAt_def cubicBezier_def Let_def four_iterations)

text \<open>
  The drop is not always tiny: between 1897 ms and 1898 ms of 10000 ms the eased progress
  falls by more than 0.002, because the first of the two frames leaves the loop after one
  Newton step, just inside the tolerance, and the second takes another step.
\<close>

lemma eased_progress_drop:
  "easedProgressAt 10000 1897
     = Some (692889653569612801911733046365407321707
             / 1048057612513917078732341249125000000000)
   \<and> easedProgressAt 10000 1898
     = Some (182234175807476260244952608113448774814568610129838808184743928160129828328779659403765302530691806873731813600013
             / 276507802992900626387823791386407555276088678171593773634757237796981043396945097189978097099544685766255859375000)
   \<and> (182234175807476260244952608113448774814568610129838808184743928160129828328779659403765302530691806873731813600013
        / 276507802992900626387823791386407555276088678171593773634757237796981043396945097189978097099544685766255859375000
        :: real) + 1 / 500
       < 692889653569612801911733046365407321707 / 1048057612513917078732341249125000000000"
  by (simp add: easedProgressAt_def progressAt_def cubicBezier_def Let_def four_iterations)

text \<open>
  C4, amended: for a positive duration, and elapsed times \<open>0 \<le> e1 \<le> e2\<close> (an elapsed time
  is the distance of a frame's time stamp from that of the first frame, so it is never
  negative), the eased progress is a number at both times and is non-decreasing up to the
  tolerance of the Newton solve: the later value is above the earlier one minus 0.01. It
  is exactly 0 at elapsed time 0 and exactly 1 for every elapsed time from the duration
  on. The proof shows that for every progress in \<open>[0,1]\<close> the loop leaves through its
  tolerance test, so that the returned value is the curve at a point whose \<open>x\<close> is within
  0.001 of the progress.
\<close>

theorem eased_progress_nearly_monotone:
  assumes "0 < dur" and "0 \<le> e1" and "e1 \<le> e2"
  shows "\<exists>p1 p2. easedProgressAt dur e1 = Some p1 \<and> easedProgressAt dur e2 = Some p2
           \<and> p1 - 1 / 100 < p2
           \<and> (e1 = 0 \<longrightarrow> p1 = 0)
           \<and> (dur \<le> e2 \<longrightarrow> p2 = 1)"
proof -
  define t1 where "t1 = min (e1 / dur) 1"
  define t2 where "t2 = min (e2 / dur) 1"
  have pr: "progressAt dur e1 = Some t1" "progressAt dur e2 = Some t2"
    using assms(1) by (simp_all add: progressAt_def t1_def t2_def)
  have "e1 / dur \<le> e2 / dur"
    using assms by (simp add: divide_right_mono)
  then have t12: "t1 \<le> t2" by (simp add: t1_def t2_def min_def)
  have t1_0: "0 \<le> t1" using assms by (simp add: t1_def)
  have t2_1: "t2 \<le> 1" by (simp add: t2_def)
  have t1_1: "t1 \<le> 1" and t2_0: "0 \<le> t2" using t12 t1_0 t2_1 by linarith+
  obtain z1 where z1: "cubicBezier (23 / 100) 1 (8 / 25) 1 t1 = Some (easeY z1)"
    and r1: "\<bar>easeX z1 - t1\<bar> < 1 / 1000"
    using cubicBezier_solves [OF t1_0 t1_1] by auto
  obtain z2 where z2: "cubicBezier (23 / 100) 1 (8 / 25) 1 t2 = Some (easeY z2)"
    and r2: "\<bar>easeX z2 - t2\<bar> < 1 / 1000"
    using cubicBezier_solves [OF t2_0 t2_1] by auto
  have e1v: "easedProgressAt dur e1 = Some (easeY z1)"
    and e2v: "easedProgressAt dur e2 = Some (easeY z2)"
    using z1 z2 by (simp_all add: easedProgressAt_def pr)
  have near: "easeY z1 - 1 / 100 < easeY z2"
    using r1 r2 t1_0 t12 t2_1 by (rule ease_nearly_monotone)
  have at0: "easeY z1 = 0" if "e1 = 0"
  proof -
    have "t1 = 0" using that by (simp add: t1_def)
    then have "cubicBezier (23 / 100) 1 (8 / 25) 1 t1 = Some 0"
      by (simp add: cubicBezier_def Let_def four_iterations)
    with z1 show ?thesis by simp
  qed
  have at1: "easeY z2 = 1" if "dur \<le> e2"
  proof -
    have "t2 = 1" using that assms(1) by (simp add: t2_def min_def)
    then have "cubicBezier (23 / 100) 1 (8 / 25) 1 t2 = Some 1"
      by (simp add: cubicBezier_def Let_def four_iterations)
    with z2 show ?thesis by simp
  qed
  show ?thesis
    using e1v e2v near at0 at1 by auto
qed

theorem eased_progress_nearly_monotone_witness:
  "(0::real) < 800 \<and> (0::real) \<le> 0 \<and> (0::real) \<le> 800 \<and> (800::real) \<le> 800
   \<and> easedProgressAt 800 0 = Some 0 \<and> easedProgressAt 800 800 = Some 1
   \<and> (0::real) - 1 / 100 < 1"
  using eased_progress_nearly_monotone [of 800 0 800]
  by auto

text \<open>
  C5, as the specification states it, fails at progress 0: there the shadow progress
  equals the progress, and 0 is below 2/3.
\<close>

theorem shadow_equals_progress_at_zero:
  "shadowProgressOf 0 = 0 \<and> \<not> (2 / 3 \<le> (0::real))"
  by (simp add: shadowProgressOf_def)

text \<open>
  C5, amended: for every progress in \<open>[0,1]\<close> the shadow progress \<open>min(progress * 1.5, 1)\<close>
  is at least the progress, and the two are equal exactly at progress 0 and at progress 1;
  so for a positive progress they are equal only once the progress is at least 2/3.
\<close>

theorem shadow_leads_progress:
  assumes "0 \<le> p" and "p \<le> 1"
  shows "p \<le> shadowProgressOf p
         \<and> (shadowProgressOf p = p \<longleftrightarrow> p = 0 \<or> p = 1)
         \<and> (0 < p \<and> shadowProgressOf p = p \<longrightarrow> 2 / 3 \<le> p)"
  using assms by (auto simp: shadowProgressOf_def min_def)

theorem shadow_leads_progress_witness:
  "(0::real) \<le> 1 \<and> (1::real) \<le> 1 \<and> (0::real) < 1 \<and> shadowProgressOf 1 = 1
   \<and> (2 / 3 \<le> (1::real))
   \<and> (0::real) \<le> 1 / 2 \<and> (1 / 2 ::real) \<le> 1 \<and> (1 / 2 :: real) \<le> shadowProgressOf (1 / 2)
   \<and> shadowProgressOf (1 / 2) \<noteq> 1 / 2"
  using shadow_leads_progress [of 1] shadow_leads_progress [of "1 / 2"]
  by simp

end
